theory Spec2Isabelle
  imports Main "HOL-Library.Sublist"
begin

section \<open>The workspace component of the live editor\<close>

text \<open>
  A shallow embedding of \<^verbatim>\<open>src/components/workspace/Workspace.js\<close>: the component
  that posts every file to the Babel worker, files the worker's answers in two caches
  (one for the player, one for the transpiler view) and runs the application in the
  player once every file has been transformed.

  Modelling decisions, each read off the source:
  \<^item> A JavaScript string is a \<open>string\<close>. A plain object used as a dictionary
    (\<^verbatim>\<open>playerCache\<close>, \<^verbatim>\<open>transpilerCache\<close>, \<^verbatim>\<open>codeCache\<close>) is the map of its own
    properties. The caches start as \<^verbatim>\<open>{}\<close>, so they inherit from \<^verbatim>\<open>Object.prototype\<close>:
    reading \<^verbatim>\<open>obj[k]\<close> (\<open>getProperty\<close>) finds the own property, else the inherited
    one, else \<^verbatim>\<open>undefined\<close>; the assignment \<^verbatim>\<open>obj[k] = v\<close> (\<open>setProperty\<close>) makes an
    own property, except for \<^verbatim>\<open>__proto__\<close>, whose inherited setter ignores a string.
  \<^item> \<^verbatim>\<open>props.files\<close> is an association list, so that \<^verbatim>\<open>Object.keys(files)\<close> is a
    list the code can iterate over.
  \<^item> The effects on the collaborators are logs in the state: the requests posted to the
    worker, the calls of \<^verbatim>\<open>player.runApplication\<close>, the calls of \<^verbatim>\<open>props.onChange\<close>,
    and the exceptions a handler left uncaught.
  \<^item> \<^verbatim>\<open>this.refs.player\<close> is defined only while the player's frame is mounted; calling
    \<^verbatim>\<open>player.runApplication\<close> without it throws a \<^verbatim>\<open>TypeError\<close>. That call is the last
    statement of \<^verbatim>\<open>runApplication\<close>, and \<^verbatim>\<open>runApplication\<close> the last statement
    \<^verbatim>\<open>onBabelWorkerMessage\<close> executes, so the state at the throw is the final state and
    the exception is recorded in the log \<open>uncaught\<close>.
  \<^item> \<^verbatim>\<open>getErrorDetails\<close> lives in \<^verbatim>\<open>utils/ErrorMessage\<close>, outside the component; it
    is a parameter \<open>getErrorDetails :: string \<Rightarrow> 'e\<close> of every function that calls it.
\<close>

subsection \<open>Transpiler ids\<close>

definition transpilerPrefix :: string where
  "transpilerPrefix = ''@babel-''"

definition getTranspilerId :: "string \<Rightarrow> string" where
  "getTranspilerId filename = transpilerPrefix @ filename"

text \<open>
  \<^verbatim>\<open>String.prototype.indexOf\<close>: the least position at which the argument occurs,
  \<open>-1\<close> when it occurs nowhere. \<open>indexOfFrom s sub i\<close> searches \<open>s\<close>, the rest of
  the string from position \<open>i\<close> on.
\<close>

fun indexOfFrom :: "string \<Rightarrow> string \<Rightarrow> int \<Rightarrow> int" where
  "indexOfFrom [] sub i = (if sub = [] then i else - 1)"
| "indexOfFrom (c # cs) sub i =
     (if prefix sub (c # cs) then i else indexOfFrom cs sub (i + 1))"

definition indexOf :: "string \<Rightarrow> string \<Rightarrow> int" where
  "indexOf s sub = indexOfFrom s sub 0"

definition isTranspilerId :: "string \<Rightarrow> bool" where
  "isTranspilerId filename = (indexOf filename transpilerPrefix = 0)"

subsection \<open>Props, state and messages\<close>

record props =
  files :: "(string \<times> string) list"
  entry :: string
  initialTab :: string
  panes :: "string list"

definition Object_keys :: "(string \<times> 'v) list \<Rightarrow> string list" where
  "Object_keys obj = map fst obj"

text \<open>A request posted to the worker; \<open>options\<close> is \<open>Some b\<close> for
  \<^verbatim>\<open>options: {retainLines: b}\<close> and \<open>None\<close> when the request has no options.\<close>

datatype request = Request (req_filename: string) (req_code: string) (req_options: "bool option")

text \<open>
  The worker's answer after \<^verbatim>\<open>JSON.parse\<close>. \<open>code\<close> is read only when \<open>type\<close> is
  \<^verbatim>\<open>'code'\<close>, and \<open>error\<close> (the text \<^verbatim>\<open>error.message\<close>) only when it is \<^verbatim>\<open>'error'\<close>.
\<close>

record message =
  filename :: string
  type :: string
  code :: string
  error :: string

datatype js_error = TypeError

text \<open>
  The component: \<^verbatim>\<open>this.state\<close>, the instance fields \<^verbatim>\<open>codeCache\<close> and
  \<^verbatim>\<open>playerCache\<close>, whether \<^verbatim>\<open>this.refs.player\<close> is mounted, and the logs of effects.
\<close>

record 'e state =
  compilerError :: "'e option"
  runtimeError :: "'e option"
  showDetails :: bool
  activeTab :: string
  transpilerCache :: "string \<rightharpoonup> string"
  transpilerVisible :: bool
  playerVisible :: bool
  codeCache :: "string \<rightharpoonup> string"
  playerCache :: "string \<rightharpoonup> string"
  player :: bool
  posted :: "request list"
  runs :: "((string \<rightharpoonup> string) \<times> string) list"
  changes :: "(string \<rightharpoonup> string) list"
  uncaught :: "js_error list"

subsection \<open>Plain objects as dictionaries\<close>

text \<open>The property names every plain object inherits from \<^verbatim>\<open>Object.prototype\<close> in a
  browser: the standard methods, \<^verbatim>\<open>constructor\<close>, and the legacy accessors.\<close>

definition objectPrototypeNames :: "string list" where
  "objectPrototypeNames =
     [''constructor'', ''hasOwnProperty'', ''isPrototypeOf'', ''propertyIsEnumerable'',
      ''toLocaleString'', ''toString'', ''valueOf'', ''__proto__'',
      ''__defineGetter__'', ''__defineSetter__'', ''__lookupGetter__'', ''__lookupSetter__'']"

text \<open>What reading a property of a cache can give: \<^verbatim>\<open>undefined\<close>, a cached string, or
  the function or object inherited under that name.\<close>

datatype jsval = Undefined | Str string | Inherited

text \<open>\<^verbatim>\<open>obj[k]\<close> read: an own property shadows the inherited one.\<close>

definition getProperty :: "(string \<rightharpoonup> string) \<Rightarrow> string \<Rightarrow> jsval" where
  "getProperty obj k =
     (case obj k of
        Some v \<Rightarrow> Str v
      | None \<Rightarrow> if k \<in> set objectPrototypeNames then Inherited else Undefined)"

text \<open>\<^verbatim>\<open>obj[k] = v\<close> for a string \<open>v\<close>: the inherited data properties are writable, so
  the assignment makes an own property; \<^verbatim>\<open>__proto__\<close> is an accessor whose setter does
  nothing when given a string.\<close>

definition setProperty :: "(string \<rightharpoonup> string) \<Rightarrow> string \<Rightarrow> string \<Rightarrow> (string \<rightharpoonup> string)" where
  "setProperty obj k v = (if k = ''__proto__'' then obj else obj(k \<mapsto> v))"

text \<open>A value as a condition: \<^verbatim>\<open>undefined\<close> and the empty string are falsy, every other
  string and every function or object is truthy.\<close>

definition truthy :: "jsval \<Rightarrow> bool" where
  "truthy v = (case v of Undefined \<Rightarrow> False | Str s \<Rightarrow> s \<noteq> [] | Inherited \<Rightarrow> True)"

text \<open>The test \<^verbatim>\<open>Object.keys(files).every(filename => playerCache[filename])\<close>: each file
  has been transformed at least once.\<close>

definition allTransformed :: "(string \<times> string) list \<Rightarrow> (string \<rightharpoonup> string) \<Rightarrow> bool" where
  "allTransformed fs cache =
     list_all (\<lambda>fname. truthy (getProperty cache fname)) (Object_keys fs)"

subsection \<open>The component's methods\<close>

definition constructor :: "props \<Rightarrow> 'e state" where
  "constructor p =
     \<lparr> compilerError = None,
       runtimeError = None,
       showDetails = False,
       activeTab = initialTab p,
       transpilerCache = Map.empty,
       transpilerVisible = (''transpiler'' \<in> set (panes p)),
       playerVisible = (''player'' \<in> set (panes p)),
       codeCache = Map.empty,
       playerCache = Map.empty,
       player = False,
       posted = [],
       runs = [],
       changes = [],
       uncaught = [] \<rparr>"

text \<open>What both \<^verbatim>\<open>componentDidMount\<close> and \<^verbatim>\<open>onCodeChange\<close> post for one file: the
  player's request when the player is visible, then the transpiler's when it is.\<close>

definition postFile :: "string \<Rightarrow> string \<Rightarrow> 'e state \<Rightarrow> 'e state" where
  "postFile fname src s =
     (let s1 = (if playerVisible s
                then s\<lparr>posted := posted s @ [Request fname src (Some True)]\<rparr> else s)
      in if transpilerVisible s1
         then s1\<lparr>posted := posted s1 @ [Request (getTranspilerId fname) src None]\<rparr> else s1)"

text \<open>\<^verbatim>\<open>componentDidMount\<close>; \<open>navigator\<close> says whether \<^verbatim>\<open>typeof navigator\<close> is defined.
  Rendering mounts the player's frame exactly when \<^verbatim>\<open>'player'\<close> is among the panes.\<close>

definition componentDidMount :: "bool \<Rightarrow> props \<Rightarrow> 'e state \<Rightarrow> 'e state" where
  "componentDidMount navigator p s =
     (let s0 = s\<lparr>player := (''player'' \<in> set (panes p))\<rparr> in
      if navigator
      then foldl (\<lambda>s' (fname, src).
                    postFile fname src (s'\<lparr>codeCache := setProperty (codeCache s') fname src\<rparr>))
             s0 (files p)
      else s0)"

definition runApplication :: "props \<Rightarrow> 'e state \<Rightarrow> 'e state" where
  "runApplication p s =
     (if player s then s\<lparr>runs := runs s @ [(playerCache s, entry p)]\<rparr>
      else s\<lparr>uncaught := uncaught s @ [TypeError]\<rparr>)"

definition updateStatus :: "(string \<Rightarrow> 'e) \<Rightarrow> string \<Rightarrow> string \<Rightarrow> 'e state \<Rightarrow> 'e state" where
  "updateStatus getErrorDetails ty err s =
     (if ty = ''code'' then s\<lparr>compilerError := None, showDetails := False\<rparr>
      else if ty = ''error'' then s\<lparr>compilerError := Some (getErrorDetails err)\<rparr>
      else s)"

definition onBabelWorkerMessage ::
  "(string \<Rightarrow> 'e) \<Rightarrow> props \<Rightarrow> message \<Rightarrow> 'e state \<Rightarrow> 'e state" where
  "onBabelWorkerMessage getErrorDetails p m s =
     (let s1 = updateStatus getErrorDetails (type m) (error m) s in
      if type m = ''code'' then
        if isTranspilerId (filename m)
        then s1\<lparr>transpilerCache := (transpilerCache s)(filename m \<mapsto> code m)\<rparr>
        else
          let s2 = s1\<lparr>playerCache := setProperty (playerCache s1) (filename m) (code m)\<rparr> in
          if allTransformed (files p) (playerCache s2)
          then runApplication p s2
          else s2
      else s1)"

definition onCodeChange :: "string \<Rightarrow> 'e state \<Rightarrow> 'e state" where
  "onCodeChange src s =
     (let s1 = postFile (activeTab s) src s;
          s2 = s1\<lparr>codeCache := setProperty (codeCache s1) (activeTab s) src\<rparr>
      in s2\<lparr>changes := changes s2 @ [codeCache s2]\<rparr>)"

definition onToggleDetails :: "bool \<Rightarrow> 'e state \<Rightarrow> 'e state" where
  "onToggleDetails sd s = s\<lparr>showDetails := sd\<rparr>"

definition onPlayerRun :: "'e state \<Rightarrow> 'e state" where
  "onPlayerRun s = s\<lparr>runtimeError := None\<rparr>"

definition onPlayerError :: "(string \<Rightarrow> 'e) \<Rightarrow> string \<Rightarrow> 'e state \<Rightarrow> 'e state" where
  "onPlayerError getErrorDetails msg s = s\<lparr>runtimeError := Some (getErrorDetails msg)\<rparr>"

definition onClickTab :: "string \<Rightarrow> 'e state \<Rightarrow> 'e state" where
  "onClickTab tab s = s\<lparr>activeTab := tab\<rparr>"

subsection \<open>Message delivery and sample data\<close>

text \<open>The worker's \<^verbatim>\<open>message\<close> events reach the listener one at a time, in the order
  of the list; the props are those current while the events arrive.\<close>

fun deliver :: "(string \<Rightarrow> 'e) \<Rightarrow> props \<Rightarrow> message list \<Rightarrow> 'e state \<Rightarrow> 'e state" where
  "deliver getErrorDetails p [] s = s"
| "deliver getErrorDetails p (m # ms) s =
     deliver getErrorDetails p ms (onBabelWorkerMessage getErrorDetails p m s)"

text \<open>The own cache entry a worker's answer for the name \<open>key\<close> is filed under:
  transpiler ids in \<^verbatim>\<open>transpilerCache\<close>, every other name in \<^verbatim>\<open>playerCache\<close>.\<close>

definition cached :: "'e state \<Rightarrow> string \<Rightarrow> string option" where
  "cached s key = (if isTranspilerId key then transpilerCache s key else playerCache s key)"

text \<open>The component has no decoder of its own. The file an answer is about, as the
  specification decodes it: the name with the marker stripped when it is a transpiler id,
  the name itself otherwise.\<close>

definition realFilename :: "string \<Rightarrow> string" where
  "realFilename key = (if isTranspilerId key then drop (length transpilerPrefix) key else key)"

text \<open>A mounted component, and the two shapes of answer the worker sends.\<close>

definition mounted :: "props \<Rightarrow> 'e state" where
  "mounted p = componentDidMount True p (constructor p)"

definition codeMessage :: "string \<Rightarrow> string \<Rightarrow> message" where
  "codeMessage fname c = \<lparr>filename = fname, type = ''code'', code = c, error = []\<rparr>"

definition errorMessage :: "string \<Rightarrow> string \<Rightarrow> message" where
  "errorMessage fname e = \<lparr>filename = fname, type = ''error'', code = [], error = e\<rparr>"

text \<open>Sample props: two files shown in all three panes, and the same workspace after
  \<^verbatim>\<open>b.js\<close> has been removed from the file set.\<close>

definition sampleProps :: props where
  "sampleProps =
     \<lparr>files = [(''a.js'', ''let a''), (''b.js'', ''let b'')], entry = ''a.js'',
      initialTab = ''a.js'', panes = [''editor'', ''transpiler'', ''player'']\<rparr>"

definition shrunkProps :: props where
  "shrunkProps = sampleProps\<lparr>files := [(''a.js'', ''let a'')]\<rparr>"

text \<open>A workspace whose only file is named \<^verbatim>\<open>__proto__\<close>, as a file object read with
  \<^verbatim>\<open>JSON.parse\<close> can name it.\<close>

definition protoProps :: props where
  "protoProps =
     \<lparr>files = [(''__proto__'', ''let a'')], entry = ''__proto__'',
      initialTab = ''__proto__'', panes = [''editor'', ''player'']\<rparr>"

subsection \<open>Facts about \<open>indexOf\<close>\<close>

lemma indexOfFrom_range: "indexOfFrom s sub i = - 1 \<or> i \<le> indexOfFrom s sub i"
proof (induction s arbitrary: i)
  case Nil
  then show ?case by simp
next
  case (Cons c cs)
  from Cons.IH [of "i + 1"] show ?case by auto
qed

lemma indexOfFrom_start: "0 \<le> i \<Longrightarrow> (indexOfFrom s sub i = i) = prefix sub s"
proof (cases s)
  case Nil
  assume "0 \<le> i"
  then show ?thesis using Nil by auto
next
  case (Cons c cs)
  assume "0 \<le> i"
  then show ?thesis using Cons indexOfFrom_range [of cs sub "i + 1"] by auto
qed

lemma isTranspilerId_prefix: "isTranspilerId f = prefix transpilerPrefix f"
  by (simp add: isTranspilerId_def indexOf_def indexOfFrom_start)

lemma indexOfFrom_none: "0 \<le> i \<Longrightarrow> (indexOfFrom s sub i = - 1) = (\<not> sublist sub s)"
proof (induction s arbitrary: i)
  case Nil
  then show ?case by auto
next
  case (Cons c cs)
  from Cons.prems Cons.IH [of "i + 1"] show ?case
    by (simp add: sublist_Cons_right)
qed

text \<open>\<open>indexOf\<close> answers \<open>-1\<close> exactly for a string that contains the argument nowhere.\<close>

lemma indexOf_none: "(indexOf s sub = - 1) = (\<not> sublist sub s)"
  by (simp add: indexOf_def indexOfFrom_none)

lemma indexOf_none_not_prefix: "indexOf s sub = - 1 \<Longrightarrow> \<not> prefix sub s"
  using indexOfFrom_start [of 0 s sub] by (simp add: indexOf_def)

subsection \<open>Facts about property access and the readiness test\<close>

lemma proto_inherited: "''__proto__'' \<in> set objectPrototypeNames"
  by (simp add: objectPrototypeNames_def)

lemma getProperty_own: "obj k = Some v \<Longrightarrow> getProperty obj k = Str v"
  by (simp add: getProperty_def)

lemma getProperty_plain:
  "k \<notin> set objectPrototypeNames \<Longrightarrow>
   getProperty obj k = (case obj k of Some v \<Rightarrow> Str v | None \<Rightarrow> Undefined)"
  by (simp add: getProperty_def)

lemma getProperty_setProperty_other:
  "f \<noteq> k \<Longrightarrow> getProperty (setProperty obj k v) f = getProperty obj f"
  by (simp add: getProperty_def setProperty_def)

lemma setProperty_plain: "k \<noteq> ''__proto__'' \<Longrightarrow> setProperty obj k v = obj(k \<mapsto> v)"
  by (simp add: setProperty_def)

lemma dom_setProperty: "dom obj \<subseteq> dom (setProperty obj k v)"
  by (auto simp: setProperty_def)

lemma truthy_getProperty_plain:
  "k \<notin> set objectPrototypeNames \<Longrightarrow>
   truthy (getProperty obj k) = (\<exists>c. obj k = Some c \<and> c \<noteq> [])"
  by (auto simp: getProperty_def truthy_def split: option.splits)

lemma truthy_getProperty_own:
  "obj k = Some c \<Longrightarrow> truthy (getProperty obj k) = (c \<noteq> [])"
  by (simp add: getProperty_def truthy_def)

lemma allTransformed_truthy:
  "allTransformed fs cache = (\<forall>f \<in> set (Object_keys fs). truthy (getProperty cache f))"
  by (simp add: allTransformed_def list_all_iff)

lemma allTransformed_plain:
  "\<forall>f \<in> set (Object_keys fs). f \<notin> set objectPrototypeNames \<Longrightarrow>
   allTransformed fs cache = (\<forall>f \<in> set (Object_keys fs). \<exists>c. cache f = Some c \<and> c \<noteq> [])"
  by (simp add: allTransformed_truthy truthy_getProperty_plain)

lemma allTransformed_update:
  assumes "allTransformed fs cache" and "c \<noteq> []"
  shows "allTransformed fs (setProperty cache k c)"
proof (cases "k = ''__proto__''")
  case True
  with assms(1) show ?thesis by (simp add: setProperty_def)
next
  case False
  have "truthy (getProperty (cache(k \<mapsto> c)) f)" if "truthy (getProperty cache f)" for f
    using that assms(2) by (cases "f = k") (simp_all add: getProperty_def truthy_def)
  with assms(1) False show ?thesis
    by (simp add: allTransformed_truthy setProperty_def)
qed

lemma allTransformed_undeclared:
  "k \<notin> set (Object_keys fs) \<Longrightarrow>
   allTransformed fs (setProperty cache k c) = allTransformed fs cache"
proof -
  assume undeclared: "k \<notin> set (Object_keys fs)"
  have "getProperty (setProperty cache k c) f = getProperty cache f"
    if "f \<in> set (Object_keys fs)" for f
  proof -
    from that undeclared have "f \<noteq> k" by blast
    then show ?thesis by (rule getProperty_setProperty_other)
  qed
  then show ?thesis by (simp add: allTransformed_truthy)
qed

lemma allTransformed_dom:
  "\<forall>f \<in> set (Object_keys fs). f \<notin> set objectPrototypeNames \<Longrightarrow>
   \<forall>k c. cache k = Some c \<longrightarrow> c \<noteq> [] \<Longrightarrow>
   allTransformed fs cache = (set (Object_keys fs) \<subseteq> dom cache)"
  by (auto simp: allTransformed_plain)

subsection \<open>The four ways a worker's message is handled\<close>

lemma message_error:
  "type m = ''error'' \<Longrightarrow>
   onBabelWorkerMessage g p m s = s\<lparr>compilerError := Some (g (error m))\<rparr>"
  by (simp add: onBabelWorkerMessage_def updateStatus_def)

lemma message_preview:
  "type m = ''code'' \<Longrightarrow> isTranspilerId (filename m) \<Longrightarrow>
   onBabelWorkerMessage g p m s =
     s\<lparr>compilerError := None, showDetails := False,
       transpilerCache := (transpilerCache s)(filename m \<mapsto> code m)\<rparr>"
  by (simp add: onBabelWorkerMessage_def updateStatus_def)

lemma message_player:
  "type m = ''code'' \<Longrightarrow> \<not> isTranspilerId (filename m) \<Longrightarrow>
   onBabelWorkerMessage g p m s =
     (if allTransformed (files p) (setProperty (playerCache s) (filename m) (code m))
      then if player s
        then s\<lparr>compilerError := None, showDetails := False,
               playerCache := setProperty (playerCache s) (filename m) (code m),
               runs := runs s
                 @ [(setProperty (playerCache s) (filename m) (code m), entry p)]\<rparr>
        else s\<lparr>compilerError := None, showDetails := False,
               playerCache := setProperty (playerCache s) (filename m) (code m),
               uncaught := uncaught s @ [TypeError]\<rparr>
      else s\<lparr>compilerError := None, showDetails := False,
             playerCache := setProperty (playerCache s) (filename m) (code m)\<rparr>)"
  by (simp add: onBabelWorkerMessage_def updateStatus_def runApplication_def Let_def)

lemma message_other:
  "type m \<noteq> ''code'' \<Longrightarrow> type m \<noteq> ''error'' \<Longrightarrow> onBabelWorkerMessage g p m s = s"
  by (simp add: onBabelWorkerMessage_def updateStatus_def)

lemma message_cases:
  obtains (code_preview) "type m = ''code''" "isTranspilerId (filename m)"
  | (code_player) "type m = ''code''" "\<not> isTranspilerId (filename m)"
  | (failure) "type m = ''error''"
  | (other) "type m \<noteq> ''code''" "type m \<noteq> ''error''"
  by blast

lemma playerCache_message:
  "type m = ''code'' \<Longrightarrow> \<not> isTranspilerId (filename m) \<Longrightarrow>
   playerCache (onBabelWorkerMessage g p m s) = setProperty (playerCache s) (filename m) (code m)"
  by (simp add: message_player)

lemma cached_message:
  "type m = ''code'' \<Longrightarrow> isTranspilerId (filename m) \<or> filename m \<noteq> ''__proto__'' \<Longrightarrow>
   cached (onBabelWorkerMessage g p m s) k = (if k = filename m then Some (code m) else cached s k)"
  by (cases "isTranspilerId (filename m)")
     (auto simp: cached_def message_preview message_player setProperty_def)

lemma deliver_append: "deliver g p (xs @ ys) s = deliver g p ys (deliver g p xs s)"
  by (induction xs arbitrary: s) simp_all

subsection \<open>What the other methods leave alone\<close>

lemma runs_onCodeChange: "runs (onCodeChange src s) = runs s"
  by (simp add: onCodeChange_def postFile_def Let_def)

lemma playerCache_onCodeChange: "playerCache (onCodeChange src s) = playerCache s"
  by (simp add: onCodeChange_def postFile_def Let_def)

lemma player_onCodeChange: "player (onCodeChange src s) = player s"
  by (simp add: onCodeChange_def postFile_def Let_def)

lemma runs_postFile: "runs (postFile f src s) = runs s"
  by (simp add: postFile_def Let_def)

lemma runs_foldl_postFile:
  "runs (foldl (\<lambda>s' (fname, src).
           postFile fname src (s'\<lparr>codeCache := setProperty (codeCache s') fname src\<rparr>)) s fs)
     = runs s"
  by (induction fs arbitrary: s) (simp_all add: runs_postFile split: prod.splits)

lemma runs_componentDidMount: "runs (componentDidMount nav p s) = runs s"
  by (simp add: componentDidMount_def Let_def runs_foldl_postFile)

subsection \<open>The sample data, evaluated\<close>

lemma sampleProps_fields:
  "files sampleProps = [(''a.js'', ''let a''), (''b.js'', ''let b'')]"
  "entry sampleProps = ''a.js''"
  "initialTab sampleProps = ''a.js''"
  "panes sampleProps = [''editor'', ''transpiler'', ''player'']"
  by (simp_all add: sampleProps_def)

lemma shrunkProps_fields:
  "files shrunkProps = [(''a.js'', ''let a'')]"
  "entry shrunkProps = ''a.js''"
  "initialTab shrunkProps = ''a.js''"
  "panes shrunkProps = [''editor'', ''transpiler'', ''player'']"
  by (simp_all add: shrunkProps_def sampleProps_def)

lemma mounted_sample:
  "(mounted sampleProps :: 'e state) =
     \<lparr> compilerError = None, runtimeError = None, showDetails = False, activeTab = ''a.js'',
       transpilerCache = Map.empty, transpilerVisible = True, playerVisible = True,
       codeCache = [''a.js'' \<mapsto> ''let a'', ''b.js'' \<mapsto> ''let b''],
       playerCache = Map.empty, player = True,
       posted = [Request ''a.js'' ''let a'' (Some True), Request ''@babel-a.js'' ''let a'' None,
                 Request ''b.js'' ''let b'' (Some True), Request ''@babel-b.js'' ''let b'' None],
       runs = [], changes = [], uncaught = [] \<rparr>"
  by (simp add: mounted_def sampleProps_fields componentDidMount_def constructor_def postFile_def
      getTranspilerId_def transpilerPrefix_def setProperty_def Let_def)

lemma mounted_shrunk:
  "(mounted shrunkProps :: 'e state) =
     \<lparr> compilerError = None, runtimeError = None, showDetails = False, activeTab = ''a.js'',
       transpilerCache = Map.empty, transpilerVisible = True, playerVisible = True,
       codeCache = [''a.js'' \<mapsto> ''let a''],
       playerCache = Map.empty, player = True,
       posted = [Request ''a.js'' ''let a'' (Some True), Request ''@babel-a.js'' ''let a'' None],
       runs = [], changes = [], uncaught = [] \<rparr>"
  by (simp add: mounted_def shrunkProps_fields componentDidMount_def constructor_def postFile_def
      getTranspilerId_def transpilerPrefix_def setProperty_def Let_def)

lemma protoProps_fields:
  "files protoProps = [(''__proto__'', ''let a'')]"
  "entry protoProps = ''__proto__''"
  "initialTab protoProps = ''__proto__''"
  "panes protoProps = [''editor'', ''player'']"
  by (simp_all add: protoProps_def)

lemma mounted_proto:
  "(mounted protoProps :: 'e state) =
     \<lparr> compilerError = None, runtimeError = None, showDetails = False,
       activeTab = ''__proto__'',
       transpilerCache = Map.empty, transpilerVisible = False, playerVisible = True,
       codeCache = Map.empty,
       playerCache = Map.empty, player = True,
       posted = [Request ''__proto__'' ''let a'' (Some True)],
       runs = [], changes = [], uncaught = [] \<rparr>"
  by (simp add: mounted_def protoProps_fields componentDidMount_def constructor_def postFile_def
      setProperty_def Let_def)

lemmas handler_eval =
  onBabelWorkerMessage_def updateStatus_def runApplication_def allTransformed_def
  getProperty_def setProperty_def objectPrototypeNames_def
  Object_keys_def truthy_def isTranspilerId_prefix transpilerPrefix_def Let_def
  codeMessage_def errorMessage_def mounted_sample sampleProps_fields

subsection \<open>Answers that do not yet cover the file set\<close>

text \<open>While the answers delivered so far leave a file of the set without output, no run is
  requested; the cache holds exactly the names answered, each with non-empty output. The
  declared names are not inherited names, and no answer is named \<^verbatim>\<open>__proto__\<close>.\<close>

lemma deliver_outstanding:
  assumes "\<forall>m \<in> set ms. type m = ''code'' \<and> \<not> isTranspilerId (filename m)
              \<and> code m \<noteq> [] \<and> filename m \<noteq> ''__proto__''"
    and "\<forall>f \<in> set (Object_keys (files p)). f \<notin> set objectPrototypeNames"
    and "\<forall>k c. playerCache s k = Some c \<longrightarrow> c \<noteq> []"
    and "\<not> set (Object_keys (files p)) \<subseteq> dom (playerCache s) \<union> filename ` set ms"
  shows "runs (deliver g p ms s) = runs s
       \<and> player (deliver g p ms s) = player s
       \<and> dom (playerCache (deliver g p ms s)) = dom (playerCache s) \<union> filename ` set ms
       \<and> (\<forall>k c. playerCache (deliver g p ms s) k = Some c \<longrightarrow> c \<noteq> [])"
  using assms
proof (induction ms arbitrary: s)
  case Nil
  then show ?case by simp
next
  case (Cons m ms)
  let ?s = "onBabelWorkerMessage g p m s"
  let ?c = "(playerCache s)(filename m \<mapsto> code m)"
  from Cons.prems(1) have m: "type m = ''code''" "\<not> isTranspilerId (filename m)"
    "code m \<noteq> []" "filename m \<noteq> ''__proto__''"
    by simp_all
  from m(4) have set: "setProperty (playerCache s) (filename m) (code m) = ?c"
    by (rule setProperty_plain)
  from Cons.prems(3) m(3) have vals: "\<forall>k c. ?c k = Some c \<longrightarrow> c \<noteq> []"
    by simp
  have domc: "dom ?c \<union> filename ` set ms = dom (playerCache s) \<union> filename ` set (m # ms)"
    by auto
  with Cons.prems(4) have "\<not> set (Object_keys (files p)) \<subseteq> dom ?c"
    by blast
  with vals Cons.prems(2) have "\<not> allTransformed (files p) ?c"
    by (simp add: allTransformed_dom)
  with m have step: "?s = s\<lparr>compilerError := None, showDetails := False, playerCache := ?c\<rparr>"
    by (simp add: message_player set)
  have "runs (deliver g p ms ?s) = runs ?s
       \<and> player (deliver g p ms ?s) = player ?s
       \<and> dom (playerCache (deliver g p ms ?s)) = dom (playerCache ?s) \<union> filename ` set ms
       \<and> (\<forall>k c. playerCache (deliver g p ms ?s) k = Some c \<longrightarrow> c \<noteq> [])"
  proof (rule Cons.IH)
    show "\<forall>m \<in> set ms. type m = ''code'' \<and> \<not> isTranspilerId (filename m)
              \<and> code m \<noteq> [] \<and> filename m \<noteq> ''__proto__''"
      using Cons.prems(1) by simp
    show "\<forall>f \<in> set (Object_keys (files p)). f \<notin> set objectPrototypeNames"
      by (rule Cons.prems(2))
    show "\<forall>k c. playerCache ?s k = Some c \<longrightarrow> c \<noteq> []"
      using vals by (simp add: step)
    show "\<not> set (Object_keys (files p)) \<subseteq> dom (playerCache ?s) \<union> filename ` set ms"
      using Cons.prems(4) domc by (simp add: step)
  qed
  then show ?case
    using domc by (simp add: step)
qed

subsection \<open>The inherited names at work\<close>

text \<open>When the file set is the single file \<^verbatim>\<open>constructor\<close> and nothing has been
  answered, the readiness test reads the inherited function and passes: an answer for
  another name requests a run. An answer named \<^verbatim>\<open>__proto__\<close> is stored nowhere.\<close>

lemma inherited_name_passes_gate:
  "runs (onBabelWorkerMessage (\<lambda>e. e) (sampleProps\<lparr>files := [(''constructor'', ''let c'')]\<rparr>)
      (codeMessage ''other.js'' ''var o;'') (mounted sampleProps))
     = [([''other.js'' \<mapsto> ''var o;''], ''a.js'')]"
  by (simp add: handler_eval)

lemma proto_answer_not_stored:
  "playerCache (onBabelWorkerMessage (\<lambda>e. e) sampleProps
      (codeMessage ''__proto__'' ''var p;'') (mounted sampleProps)) = Map.empty"
  by (simp add: handler_eval)

section \<open>The claims\<close>

subsection \<open>C1: the map handed to the player when the run fires\<close>

text \<open>
  Claim C1 says the map passed to the player has exactly the declared file set as its keys,
  never a stale key of a file no longer in the set. The component passes \<^verbatim>\<open>playerCache\<close>
  itself, and nothing ever deletes a key from it. Here the workspace is mounted with
  \<^verbatim>\<open>a.js\<close> and \<^verbatim>\<open>b.js\<close>, both are transformed (first run), then the props change to
  the file set \<^verbatim>\<open>a.js\<close> alone and a new answer for \<^verbatim>\<open>a.js\<close> arrives: the second run
  receives a map that still has the key \<^verbatim>\<open>b.js\<close>.
\<close>

theorem stale_key_reaches_player_counterexample:
  "length (runs (deliver (\<lambda>e. e) shrunkProps [codeMessage ''a.js'' ''var a = 2;'']
      (deliver (\<lambda>e. e) sampleProps
        [codeMessage ''a.js'' ''var a;'', codeMessage ''b.js'' ''var b;''] (mounted sampleProps)))) = 2
   \<and> last (runs (deliver (\<lambda>e. e) shrunkProps [codeMessage ''a.js'' ''var a = 2;'']
      (deliver (\<lambda>e. e) sampleProps
        [codeMessage ''a.js'' ''var a;'', codeMessage ''b.js'' ''var b;''] (mounted sampleProps))))
     = ([''a.js'' \<mapsto> ''var a = 2;'', ''b.js'' \<mapsto> ''var b;''], ''a.js'')
   \<and> set (Object_keys (files shrunkProps)) = {''a.js''}
   \<and> dom [''a.js'' \<mapsto> ''var a = 2;'', ''b.js'' \<mapsto> ''var b;'']
       \<noteq> set (Object_keys (files shrunkProps))"
  by (simp add: handler_eval shrunkProps_fields fun_upd_twist)

text \<open>
  Claim C1, amended. Start from a component whose player is mounted, with an empty
  \<^verbatim>\<open>playerCache\<close> and no run yet, and deliver successful answers for the player, each
  with non-empty code and none named \<^verbatim>\<open>__proto__\<close>; no declared file bears a name
  inherited from \<^verbatim>\<open>Object.prototype\<close>. As long as the answers \<open>ms\<close> leave a file of
  the declared set without an answer, no run is requested. The answer \<open>m\<close> that completes the set requests the first run, with the whole
  \<^verbatim>\<open>playerCache\<close> and the entry file; the keys of that map are the names answered so far,
  and they are exactly the declared file set when every answered name is a declared file.
  In any state \<open>t\<close> and under any props \<open>q\<close>, handling an answer \<open>x\<close> removes no key
  from \<^verbatim>\<open>playerCache\<close>, and a run it requests receives the whole cache.
\<close>

theorem first_run_passes_whole_cache:
  assumes start: "playerCache s = Map.empty" "runs s = []" "player s"
    and successes: "\<forall>x \<in> set (ms @ [m]).
        type x = ''code'' \<and> \<not> isTranspilerId (filename x)
        \<and> code x \<noteq> [] \<and> filename x \<noteq> ''__proto__''"
    and plain: "\<forall>f \<in> set (Object_keys (files p)). f \<notin> set objectPrototypeNames"
    and outstanding: "\<not> set (Object_keys (files p)) \<subseteq> filename ` set ms"
    and complete: "set (Object_keys (files p)) \<subseteq> filename ` set (ms @ [m])"
  shows "runs (deliver g p ms s) = []
       \<and> runs (deliver g p (ms @ [m]) s) = [(playerCache (deliver g p (ms @ [m]) s), entry p)]
       \<and> dom (playerCache (deliver g p (ms @ [m]) s)) = filename ` set (ms @ [m])
       \<and> (filename ` set (ms @ [m]) \<subseteq> set (Object_keys (files p)) \<longrightarrow>
            dom (playerCache (deliver g p (ms @ [m]) s)) = set (Object_keys (files p)))
       \<and> dom (playerCache t) \<subseteq> dom (playerCache (onBabelWorkerMessage g q x t))
       \<and> (runs (onBabelWorkerMessage g q x t) \<noteq> runs t \<longrightarrow>
            last (runs (onBabelWorkerMessage g q x t))
              = (playerCache (onBabelWorkerMessage g q x t), entry q))"
proof -
  have kept: "dom (playerCache t) \<subseteq> dom (playerCache (onBabelWorkerMessage g q x t))
       \<and> (runs (onBabelWorkerMessage g q x t) \<noteq> runs t \<longrightarrow>
            last (runs (onBabelWorkerMessage g q x t))
              = (playerCache (onBabelWorkerMessage g q x t), entry q))"
    by (cases x rule: message_cases)
       (auto simp: message_preview message_player message_error message_other setProperty_def)
  let ?t = "deliver g p ms s"
  let ?c = "(playerCache ?t)(filename m \<mapsto> code m)"
  have before: "runs ?t = runs s \<and> player ?t = player s
       \<and> dom (playerCache ?t) = dom (playerCache s) \<union> filename ` set ms
       \<and> (\<forall>k c. playerCache ?t k = Some c \<longrightarrow> c \<noteq> [])"
  proof (rule deliver_outstanding)
    show "\<forall>m \<in> set ms. type m = ''code'' \<and> \<not> isTranspilerId (filename m)
              \<and> code m \<noteq> [] \<and> filename m \<noteq> ''__proto__''"
      using successes by simp
    show "\<forall>f \<in> set (Object_keys (files p)). f \<notin> set objectPrototypeNames"
      by (rule plain)
    show "\<forall>k c. playerCache s k = Some c \<longrightarrow> c \<noteq> []"
      using start(1) by simp
    show "\<not> set (Object_keys (files p)) \<subseteq> dom (playerCache s) \<union> filename ` set ms"
      using outstanding start(1) by simp
  qed
  from successes have m: "type m = ''code''" "\<not> isTranspilerId (filename m)"
    "code m \<noteq> []" "filename m \<noteq> ''__proto__''"
    by simp_all
  from m(4) have set: "setProperty (playerCache ?t) (filename m) (code m) = ?c"
    by (rule setProperty_plain)
  from before start(1) have domc: "dom ?c = filename ` set (ms @ [m])"
    by auto
  from before m(3) have "\<forall>k c. ?c k = Some c \<longrightarrow> c \<noteq> []"
    by simp
  with complete domc plain have "allTransformed (files p) ?c"
    by (simp add: allTransformed_dom)
  with m before start set have last:
    "onBabelWorkerMessage g p m ?t =
       ?t\<lparr>compilerError := None, showDetails := False, playerCache := ?c,
           runs := [(?c, entry p)]\<rparr>"
    by (simp add: message_player)
  have "deliver g p (ms @ [m]) s = onBabelWorkerMessage g p m ?t"
    by (simp add: deliver_append)
  with last domc complete before start(2) have
    "runs (deliver g p ms s) = []
       \<and> runs (deliver g p (ms @ [m]) s) = [(playerCache (deliver g p (ms @ [m]) s), entry p)]
       \<and> dom (playerCache (deliver g p (ms @ [m]) s)) = filename ` set (ms @ [m])
       \<and> (filename ` set (ms @ [m]) \<subseteq> set (Object_keys (files p)) \<longrightarrow>
            dom (playerCache (deliver g p (ms @ [m]) s)) = set (Object_keys (files p)))"
    by auto
  with kept show ?thesis
    by blast
qed

theorem first_run_passes_whole_cache_witness:
  "runs (deliver (\<lambda>e. e) sampleProps [codeMessage ''a.js'' ''var a;''] (mounted sampleProps)) = []
   \<and> runs (deliver (\<lambda>e. e) sampleProps
        ([codeMessage ''a.js'' ''var a;''] @ [codeMessage ''b.js'' ''var b;'']) (mounted sampleProps))
      = [([''a.js'' \<mapsto> ''var a;'', ''b.js'' \<mapsto> ''var b;''], ''a.js'')]
   \<and> dom (playerCache (deliver (\<lambda>e. e) sampleProps
        ([codeMessage ''a.js'' ''var a;''] @ [codeMessage ''b.js'' ''var b;'']) (mounted sampleProps)
          :: string state))
      = set (Object_keys (files sampleProps))
   \<and> runs (onBabelWorkerMessage (\<lambda>e. e) shrunkProps (codeMessage ''a.js'' ''var a = 2;'')
        (deliver (\<lambda>e. e) sampleProps
          [codeMessage ''a.js'' ''var a;'', codeMessage ''b.js'' ''var b;''] (mounted sampleProps)))
      \<noteq> runs (deliver (\<lambda>e. e) sampleProps
          [codeMessage ''a.js'' ''var a;'', codeMessage ''b.js'' ''var b;''] (mounted sampleProps))
   \<and> last (runs (onBabelWorkerMessage (\<lambda>e. e) shrunkProps (codeMessage ''a.js'' ''var a = 2;'')
        (deliver (\<lambda>e. e) sampleProps
          [codeMessage ''a.js'' ''var a;'', codeMessage ''b.js'' ''var b;''] (mounted sampleProps))))
      = ([''a.js'' \<mapsto> ''var a = 2;'', ''b.js'' \<mapsto> ''var b;''], ''a.js'')"
proof -
  let ?a = "codeMessage ''a.js'' ''var a;''" and ?b = "codeMessage ''b.js'' ''var b;''"
  let ?t = "deliver (\<lambda>e. e) sampleProps [?a, ?b] (mounted sampleProps :: string state)"
  let ?x = "codeMessage ''a.js'' ''var a = 2;''"
  have start: "playerCache (mounted sampleProps :: string state) = Map.empty"
    "runs (mounted sampleProps :: string state) = []" "player (mounted sampleProps :: string state)"
    by (simp_all add: mounted_sample)
  have successes: "\<forall>x \<in> set ([?a] @ [?b]).
      type x = ''code'' \<and> \<not> isTranspilerId (filename x)
      \<and> code x \<noteq> [] \<and> filename x \<noteq> ''__proto__''"
    by (simp add: handler_eval)
  have plain: "\<forall>f \<in> set (Object_keys (files sampleProps)). f \<notin> set objectPrototypeNames"
    by (simp add: handler_eval)
  have outstanding: "\<not> set (Object_keys (files sampleProps)) \<subseteq> filename ` set [?a]"
    by (simp add: handler_eval)
  have complete: "set (Object_keys (files sampleProps)) \<subseteq> filename ` set ([?a] @ [?b])"
    by (simp add: handler_eval)
  have declared: "filename ` set ([?a] @ [?b]) \<subseteq> set (Object_keys (files sampleProps))"
    by (simp add: handler_eval)
  have rerun: "runs (onBabelWorkerMessage (\<lambda>e. e) shrunkProps ?x ?t) \<noteq> runs ?t"
    by (simp add: handler_eval shrunkProps_fields)
  show ?thesis
    using declared rerun
      first_run_passes_whole_cache [OF start successes plain outstanding complete,
        where g = "\<lambda>e. e" and t = ?t and q = shrunkProps and x = ?x]
    by (simp add: handler_eval shrunkProps_fields fun_upd_twist)
qed

subsection \<open>C2: every answer that finds the file set transformed requests a run\<close>

text \<open>
  Claim C2 says a run is requested whenever, after the cache write, every declared file has
  a present cache entry; the comment above the test says the same: run the app once each
  file has been transformed at least once. The test reads \<^verbatim>\<open>playerCache[filename]\<close> as a
  condition, and the empty string is falsy. With the single file \<^verbatim>\<open>a.js\<close>, the player
  mounted and an answer whose code is the empty string, the file has been transformed and
  its entry is present after the write, and no run is requested.
\<close>

theorem empty_output_skips_run:
  "Object_keys (files shrunkProps) = [''a.js'']
   \<and> player (mounted shrunkProps :: string state)
   \<and> playerCache (onBabelWorkerMessage (\<lambda>e. e) shrunkProps (codeMessage ''a.js'' [])
          (mounted shrunkProps :: string state)) ''a.js'' = Some []
   \<and> runs (onBabelWorkerMessage (\<lambda>e. e) shrunkProps (codeMessage ''a.js'' [])
          (mounted shrunkProps :: string state)) = []
   \<and> uncaught (onBabelWorkerMessage (\<lambda>e. e) shrunkProps (codeMessage ''a.js'' [])
          (mounted shrunkProps :: string state)) = []"
  by (simp add: handler_eval shrunkProps_fields mounted_shrunk)

text \<open>
  Where the outputs are non-empty the component does what the claim says. For every
  successful answer for the player: if the readiness test holds of the cache after the
  write, the handler calls \<^verbatim>\<open>runApplication\<close>, which with the player mounted hands it the
  cache and the entry file; and when the test held before and the code of the answer is
  not empty, the answer that follows an edit requests a run again.
\<close>

lemma ready_response_runs:
  assumes "type m = ''code''" and "\<not> isTranspilerId (filename m)"
  shows "(allTransformed (files p) (playerCache (onBabelWorkerMessage g p m s)) \<longrightarrow>
            onBabelWorkerMessage g p m s
              = runApplication p
                  (s\<lparr>compilerError := None, showDetails := False,
                     playerCache := setProperty (playerCache s) (filename m) (code m)\<rparr>))
       \<and> (allTransformed (files p) (playerCache (onBabelWorkerMessage g p m s)) \<and> player s \<longrightarrow>
            runs (onBabelWorkerMessage g p m s)
              = runs s @ [(setProperty (playerCache s) (filename m) (code m), entry p)])
       \<and> (allTransformed (files p) (playerCache s) \<and> code m \<noteq> [] \<and> player s \<longrightarrow>
            runs (onBabelWorkerMessage g p m (onCodeChange src s))
              = runs s @ [(setProperty (playerCache s) (filename m) (code m), entry p)])"
proof -
  have pc: "playerCache (onBabelWorkerMessage g p m t)
      = setProperty (playerCache t) (filename m) (code m)" for t
    using assms by (rule playerCache_message)
  have call: "onBabelWorkerMessage g p m s
      = runApplication p
          (s\<lparr>compilerError := None, showDetails := False,
             playerCache := setProperty (playerCache s) (filename m) (code m)\<rparr>)"
    if "allTransformed (files p) (playerCache (onBabelWorkerMessage g p m s))"
  proof -
    from that have "allTransformed (files p) (setProperty (playerCache s) (filename m) (code m))"
      by (simp only: pc)
    with assms show ?thesis
      by (simp add: message_player runApplication_def)
  qed
  have fire: "runs (onBabelWorkerMessage g p m t)
      = runs t @ [(setProperty (playerCache t) (filename m) (code m), entry p)]"
    if "allTransformed (files p) (setProperty (playerCache t) (filename m) (code m))"
      and "player t" for t
    using assms that by (simp add: message_player)
  have first: "runs (onBabelWorkerMessage g p m s)
      = runs s @ [(setProperty (playerCache s) (filename m) (code m), entry p)]"
    if "allTransformed (files p) (playerCache (onBabelWorkerMessage g p m s))" and "player s"
    using that by (simp add: pc fire)
  have again: "runs (onBabelWorkerMessage g p m (onCodeChange src s))
      = runs s @ [(setProperty (playerCache s) (filename m) (code m), entry p)]"
    if "allTransformed (files p) (playerCache s)" and "code m \<noteq> []" and "player s"
  proof -
    from that have "allTransformed (files p)
        (setProperty (playerCache (onCodeChange src s)) (filename m) (code m))"
      by (simp add: playerCache_onCodeChange allTransformed_update)
    moreover from that(3) have "player (onCodeChange src s)"
      by (simp add: player_onCodeChange)
    ultimately show ?thesis
      using fire [of "onCodeChange src s"]
      by (simp add: playerCache_onCodeChange runs_onCodeChange)
  qed
  from call first again show ?thesis by blast
qed

lemma ready_response_runs_example:
  "runs (onBabelWorkerMessage (\<lambda>e. e) sampleProps (codeMessage ''a.js'' ''var a = 2;'')
        (onCodeChange ''let a = 2'' (deliver (\<lambda>e. e) sampleProps
          [codeMessage ''a.js'' ''var a;'', codeMessage ''b.js'' ''var b;'']
          (mounted sampleProps))))
      = [([''a.js'' \<mapsto> ''var a;'', ''b.js'' \<mapsto> ''var b;''], ''a.js''),
         ([''a.js'' \<mapsto> ''var a = 2;'', ''b.js'' \<mapsto> ''var b;''], ''a.js'')]"
proof -
  let ?m = "codeMessage ''a.js'' ''var a = 2;''"
  let ?s = "deliver (\<lambda>e. e) sampleProps
        [codeMessage ''a.js'' ''var a;'', codeMessage ''b.js'' ''var b;'']
        (mounted sampleProps :: string state)"
  have h1: "type ?m = ''code''" and h2: "\<not> isTranspilerId (filename ?m)"
    by (simp_all add: handler_eval)
  have h3: "allTransformed (files sampleProps) (playerCache ?s) \<and> code ?m \<noteq> [] \<and> player ?s"
    by (simp add: handler_eval)
  show ?thesis
    using h3 ready_response_runs [OF h1 h2, of sampleProps "\<lambda>e. e" ?s "''let a = 2''"]
    by (simp add: handler_eval fun_upd_twist)
qed

subsection \<open>C3: answers for the transpiler view touch neither the player's cache nor the run\<close>

text \<open>
  Claim C3. For every answer whose name is a transpiler id, whatever its type: the player's
  cache is unchanged, so the readiness test gives what it gave before; no run is
  requested and nothing is thrown; the only cache written is \<^verbatim>\<open>transpilerCache\<close>, and
  only when the answer carries code.
\<close>

theorem preview_response_frame:
  assumes "isTranspilerId (filename m)"
  shows "playerCache (onBabelWorkerMessage g p m s) = playerCache s
       \<and> allTransformed (files p) (playerCache (onBabelWorkerMessage g p m s))
           = allTransformed (files p) (playerCache s)
       \<and> runs (onBabelWorkerMessage g p m s) = runs s
       \<and> uncaught (onBabelWorkerMessage g p m s) = uncaught s
       \<and> transpilerCache (onBabelWorkerMessage g p m s)
           = (if type m = ''code'' then (transpilerCache s)(filename m \<mapsto> code m)
              else transpilerCache s)"
proof (cases m rule: message_cases)
  case code_preview
  then show ?thesis by (simp add: message_preview)
next
  case code_player
  with assms show ?thesis by simp
next
  case failure
  then show ?thesis by (simp add: message_error)
next
  case other
  then show ?thesis by (simp add: message_other)
qed

theorem preview_response_frame_witness:
  "isTranspilerId (filename (codeMessage ''@babel-a.js'' ''var a;''))
   \<and> playerCache (onBabelWorkerMessage (\<lambda>e. e) sampleProps (codeMessage ''@babel-a.js'' ''var a;'')
        (mounted sampleProps)) = Map.empty
   \<and> runs (onBabelWorkerMessage (\<lambda>e. e) sampleProps (codeMessage ''@babel-a.js'' ''var a;'')
        (mounted sampleProps)) = []
   \<and> transpilerCache (onBabelWorkerMessage (\<lambda>e. e) sampleProps (codeMessage ''@babel-a.js'' ''var a;'')
        (mounted sampleProps)) = [''@babel-a.js'' \<mapsto> ''var a;'']"
proof -
  have h: "isTranspilerId (filename (codeMessage ''@babel-a.js'' ''var a;''))"
    by (simp add: codeMessage_def isTranspilerId_prefix transpilerPrefix_def)
  show ?thesis
    using h preview_response_frame [OF h, of "\<lambda>e. e" sampleProps "mounted sampleProps :: string state"]
    by (simp add: mounted_sample codeMessage_def)
qed

subsection \<open>C4: transpiler ids are reversible and collide with no file name\<close>

text \<open>
  Claim C4. Stripping the marker from \<open>getTranspilerId f\<close> gives \<open>f\<close> back,
  \<open>isTranspilerId\<close> accepts \<open>getTranspilerId f\<close>, and two file names have the same
  transpiler id only when they are equal. For every file name \<open>f\<close> that does not contain
  the marker \<^verbatim>\<open>@babel-\<close>, \<open>isTranspilerId\<close> rejects \<open>f\<close> and no transpiler id
  \<open>getTranspilerId g\<close> equals \<open>f\<close>. The component itself never strips the marker: it
  files and looks up the transpiler's output under the encoded name.
\<close>

theorem transpilerId_round_trip:
  "drop (length transpilerPrefix) (getTranspilerId f) = f
   \<and> isTranspilerId (getTranspilerId f)
   \<and> (getTranspilerId f = getTranspilerId g) = (f = g)
   \<and> (indexOf f transpilerPrefix = - 1 \<longrightarrow>
        \<not> isTranspilerId f \<and> getTranspilerId g \<noteq> f)"
proof -
  have clash: "getTranspilerId g \<noteq> f" if np: "\<not> prefix transpilerPrefix f"
  proof
    assume "getTranspilerId g = f"
    then have "prefix transpilerPrefix f"
      by (auto simp: getTranspilerId_def)
    with np show False by simp
  qed
  have "\<not> prefix transpilerPrefix f" if "indexOf f transpilerPrefix = - 1"
    using that by (rule indexOf_none_not_prefix)
  with clash show ?thesis
    by (auto simp: getTranspilerId_def isTranspilerId_prefix)
qed

theorem transpilerId_round_trip_witness:
  "indexOf ''index.js'' transpilerPrefix = - 1
   \<and> drop (length transpilerPrefix) (getTranspilerId ''index.js'') = ''index.js''
   \<and> isTranspilerId (getTranspilerId ''index.js'')
   \<and> \<not> isTranspilerId ''index.js''
   \<and> getTranspilerId ''App.js'' \<noteq> ''index.js''
   \<and> (getTranspilerId ''index.js'' = getTranspilerId ''App.js'') = (''index.js'' = ''App.js'')"
proof -
  have h: "indexOf ''index.js'' transpilerPrefix = - 1"
    by (simp add: indexOf_def transpilerPrefix_def)
  show ?thesis
    using h transpilerId_round_trip [of "''index.js''" "''App.js''"] by simp
qed

subsection \<open>C5: the compiler error after a failure and after the next success\<close>

text \<open>
  Claim C5 says a failure sets \<^verbatim>\<open>compilerError\<close> and makes \<^verbatim>\<open>showDetails\<close> false. The
  \<^verbatim>\<open>'error'\<close> case of \<^verbatim>\<open>updateStatus\<close> sets \<^verbatim>\<open>compilerError\<close> only: when the user has
  switched the details on, they are still on after the failure.
\<close>

theorem failure_keeps_showDetails_counterexample:
  "showDetails (onBabelWorkerMessage (\<lambda>e. e) sampleProps
      (errorMessage ''a.js'' ''Unexpected token (1:4)'')
      (onToggleDetails True (mounted sampleProps)))
   \<and> compilerError (onBabelWorkerMessage (\<lambda>e. e) sampleProps
      (errorMessage ''a.js'' ''Unexpected token (1:4)'')
      (onToggleDetails True (mounted sampleProps))) = Some ''Unexpected token (1:4)''"
  by (simp add: onBabelWorkerMessage_def updateStatus_def errorMessage_def onToggleDetails_def)

text \<open>
  Claim C5, amended. A failure answer \<open>m\<close>, for any file and either cache, sets
  \<^verbatim>\<open>compilerError\<close> to the details parsed from its message and leaves \<^verbatim>\<open>showDetails\<close> as
  it was. A successful answer \<open>m'\<close>, for any file and either cache, in whatever state \<open>t\<close> it
  arrives (in particular after the failure), clears \<^verbatim>\<open>compilerError\<close> and makes
  \<^verbatim>\<open>showDetails\<close> false.
\<close>

theorem compile_failure_then_success:
  assumes "type m = ''error''" and "type m' = ''code''"
  shows "compilerError (onBabelWorkerMessage g p m s) = Some (g (error m))
       \<and> showDetails (onBabelWorkerMessage g p m s) = showDetails s
       \<and> compilerError (onBabelWorkerMessage g p' m' t) = None
       \<and> showDetails (onBabelWorkerMessage g p' m' t) = False"
proof -
  have "compilerError (onBabelWorkerMessage g p' m' t) = None
      \<and> showDetails (onBabelWorkerMessage g p' m' t) = False"
    using assms(2)
    by (cases "isTranspilerId (filename m')") (simp_all add: message_preview message_player)
  with assms(1) show ?thesis by (simp add: message_error)
qed

theorem compile_failure_then_success_witness:
  "type (errorMessage ''a.js'' ''Unexpected token (1:4)'') = ''error''
   \<and> type (codeMessage ''@babel-b.js'' ''var b;'') = ''code''
   \<and> compilerError (onBabelWorkerMessage (\<lambda>e. e) sampleProps
        (errorMessage ''a.js'' ''Unexpected token (1:4)'')
        (onToggleDetails True (mounted sampleProps))) = Some ''Unexpected token (1:4)''
   \<and> showDetails (onBabelWorkerMessage (\<lambda>e. e) sampleProps
        (errorMessage ''a.js'' ''Unexpected token (1:4)'')
        (onToggleDetails True (mounted sampleProps))) = True
   \<and> compilerError (onBabelWorkerMessage (\<lambda>e. e) sampleProps (codeMessage ''@babel-b.js'' ''var b;'')
        (onBabelWorkerMessage (\<lambda>e. e) sampleProps
          (errorMessage ''a.js'' ''Unexpected token (1:4)'')
          (onToggleDetails True (mounted sampleProps)))) = None
   \<and> showDetails (onBabelWorkerMessage (\<lambda>e. e) sampleProps (codeMessage ''@babel-b.js'' ''var b;'')
        (onBabelWorkerMessage (\<lambda>e. e) sampleProps
          (errorMessage ''a.js'' ''Unexpected token (1:4)'')
          (onToggleDetails True (mounted sampleProps)))) = False"
proof -
  have h1: "type (errorMessage ''a.js'' ''Unexpected token (1:4)'') = ''error''"
    by (simp add: errorMessage_def)
  have h2: "type (codeMessage ''@babel-b.js'' ''var b;'') = ''code''"
    by (simp add: codeMessage_def)
  show ?thesis
    using h1 h2 compile_failure_then_success [OF h1 h2, of "\<lambda>e. e" sampleProps
        "onToggleDetails True (mounted sampleProps)" sampleProps
        "onBabelWorkerMessage (\<lambda>e. e) sampleProps
          (errorMessage ''a.js'' ''Unexpected token (1:4)'')
          (onToggleDetails True (mounted sampleProps))"]
    by (simp add: errorMessage_def onToggleDetails_def)
qed

subsection \<open>C6: a failure leaves both caches as they were\<close>

text \<open>
  Claim C6. An answer of type \<^verbatim>\<open>'error'\<close> changes nothing but \<^verbatim>\<open>compilerError\<close>: the
  state afterwards is the state before with the error set, so \<^verbatim>\<open>playerCache\<close> and
  \<^verbatim>\<open>transpilerCache\<close> keep every entry they had, and no run is requested.
\<close>

theorem failure_response_frame:
  assumes "type m = ''error''"
  shows "onBabelWorkerMessage g p m s = s\<lparr>compilerError := Some (g (error m))\<rparr>
       \<and> playerCache (onBabelWorkerMessage g p m s) = playerCache s
       \<and> transpilerCache (onBabelWorkerMessage g p m s) = transpilerCache s
       \<and> runs (onBabelWorkerMessage g p m s) = runs s"
proof -
  from assms have "onBabelWorkerMessage g p m s = s\<lparr>compilerError := Some (g (error m))\<rparr>"
    by (rule message_error)
  then show ?thesis by simp
qed

theorem failure_response_frame_witness:
  "type (errorMessage ''b.js'' ''Unexpected token (1:4)'') = ''error''
   \<and> onBabelWorkerMessage (\<lambda>e. e) sampleProps (errorMessage ''b.js'' ''Unexpected token (1:4)'')
        (deliver (\<lambda>e. e) sampleProps
           [codeMessage ''a.js'' ''var a;'', codeMessage ''b.js'' ''var b;''] (mounted sampleProps))
     = (mounted sampleProps)
         \<lparr>compilerError := Some ''Unexpected token (1:4)'',
          playerCache := [''a.js'' \<mapsto> ''var a;'', ''b.js'' \<mapsto> ''var b;''],
          runs := [([''a.js'' \<mapsto> ''var a;'', ''b.js'' \<mapsto> ''var b;''], ''a.js'')]\<rparr>"
proof -
  have h: "type (errorMessage ''b.js'' ''Unexpected token (1:4)'') = ''error''"
    by (simp add: errorMessage_def)
  show ?thesis
    using h failure_response_frame [OF h, of "\<lambda>e. e" sampleProps
        "deliver (\<lambda>e. e) sampleProps
           [codeMessage ''a.js'' ''var a;'', codeMessage ''b.js'' ''var b;''] (mounted sampleProps)"]
    by (simp add: handler_eval)
qed

subsection \<open>C7: who calls the player\<close>

text \<open>
  Claim C7 says the re-run operation the component exposes does nothing while the cache is
  incomplete. The component's method is \<^verbatim>\<open>runApplication\<close>, and it tests nothing: on a
  freshly mounted workspace, with nothing transformed, it hands the player the empty cache.
\<close>

theorem run_without_gate_counterexample:
  "\<not> allTransformed (files sampleProps) (playerCache (mounted sampleProps :: string state))
   \<and> runs (mounted sampleProps :: string state) = []
   \<and> runs (runApplication sampleProps (mounted sampleProps :: string state))
       = [(Map.empty, ''a.js'')]"
  by (simp add: handler_eval)

text \<open>
  Claim C7, amended. \<^verbatim>\<open>runApplication\<close> calls the player with the current cache and the
  entry file whenever the player is mounted, whatever the cache holds. The readiness test
  guards the call made by \<^verbatim>\<open>onBabelWorkerMessage\<close>: when handling an answer requests a
  run, the test held of the cache after the write and that cache is the map passed. When
  no declared file bears a name inherited from \<^verbatim>\<open>Object.prototype\<close>, that map then has an
  entry for every file of the declared set (for the entry file when it is one of them). No
  other method of the component calls the player.
\<close>

theorem run_gate_in_message_handler:
  "(player s \<longrightarrow> runs (runApplication p s) = runs s @ [(playerCache s, entry p)])
   \<and> (runs (onBabelWorkerMessage g p m s) \<noteq> runs s \<longrightarrow>
        runs (onBabelWorkerMessage g p m s)
          = runs s @ [(playerCache (onBabelWorkerMessage g p m s), entry p)]
      \<and> allTransformed (files p) (playerCache (onBabelWorkerMessage g p m s)))
   \<and> (runs (onBabelWorkerMessage g p m s) \<noteq> runs s
        \<and> (\<forall>f \<in> set (Object_keys (files p)). f \<notin> set objectPrototypeNames) \<longrightarrow>
        (\<forall>f \<in> set (Object_keys (files p)).
            \<exists>out. playerCache (onBabelWorkerMessage g p m s) f = Some out))
   \<and> runs (componentDidMount nav p s) = runs s
   \<and> runs (onCodeChange src s) = runs s
   \<and> runs (onToggleDetails sd s) = runs s
   \<and> runs (onPlayerRun s) = runs s
   \<and> runs (onPlayerError g msg s) = runs s
   \<and> runs (onClickTab tab s) = runs s"
proof -
  let ?s = "onBabelWorkerMessage g p m s"
  have direct: "player s \<longrightarrow> runs (runApplication p s) = runs s @ [(playerCache s, entry p)]"
    by (simp add: runApplication_def)
  have gated: "runs ?s = runs s @ [(playerCache ?s, entry p)]
      \<and> allTransformed (files p) (playerCache ?s)"
    if changed: "runs ?s \<noteq> runs s"
  proof (cases m rule: message_cases)
    case code_preview
    with changed show ?thesis by (simp add: message_preview)
  next
    case code_player
    with changed show ?thesis
      by (simp add: message_player split: if_splits)
  next
    case failure
    with changed show ?thesis by (simp add: message_error)
  next
    case other
    with changed show ?thesis by (simp add: message_other)
  qed
  have covered: "\<forall>f \<in> set (Object_keys (files p)). \<exists>out. playerCache ?s f = Some out"
    if "runs ?s \<noteq> runs s"
      and "\<forall>f \<in> set (Object_keys (files p)). f \<notin> set objectPrototypeNames"
  proof -
    from that(1) have "allTransformed (files p) (playerCache ?s)"
      using gated by blast
    with that(2) show ?thesis
      by (auto simp: allTransformed_plain)
  qed
  have others: "runs (onToggleDetails sd s) = runs s" "runs (onPlayerRun s) = runs s"
    "runs (onPlayerError g msg s) = runs s" "runs (onClickTab tab s) = runs s"
    by (simp_all add: onToggleDetails_def onPlayerRun_def onPlayerError_def onClickTab_def)
  from direct gated covered others show ?thesis
    by (simp add: runs_componentDidMount runs_onCodeChange)
qed

theorem run_gate_in_message_handler_witness:
  "player (mounted sampleProps :: string state)
   \<and> runs (runApplication sampleProps (mounted sampleProps :: string state)) = [(Map.empty, ''a.js'')]
   \<and> runs (deliver (\<lambda>e. e) sampleProps [codeMessage ''a.js'' ''var a;''] (mounted sampleProps)) = []
   \<and> runs (onBabelWorkerMessage (\<lambda>e. e) sampleProps (codeMessage ''b.js'' ''var b;'')
        (deliver (\<lambda>e. e) sampleProps [codeMessage ''a.js'' ''var a;''] (mounted sampleProps)))
      = [([''a.js'' \<mapsto> ''var a;'', ''b.js'' \<mapsto> ''var b;''], ''a.js'')]
   \<and> Object_keys (files sampleProps) = [''a.js'', ''b.js'']
   \<and> ''a.js'' \<notin> set objectPrototypeNames \<and> ''b.js'' \<notin> set objectPrototypeNames"
proof -
  let ?s = "deliver (\<lambda>e. e) sampleProps [codeMessage ''a.js'' ''var a;'']
              (mounted sampleProps :: string state)"
  let ?m = "codeMessage ''b.js'' ''var b;''"
  have h1: "player (mounted sampleProps :: string state)"
    by (simp add: handler_eval)
  have h2: "runs (onBabelWorkerMessage (\<lambda>e. e) sampleProps ?m ?s) \<noteq> runs ?s"
    by (simp add: handler_eval)
  have h3: "\<forall>f \<in> set (Object_keys (files sampleProps)). f \<notin> set objectPrototypeNames"
    by (simp add: handler_eval)
  show ?thesis
    using h1 h2 h3 run_gate_in_message_handler [of ?s sampleProps "\<lambda>e. e" ?m]
      run_gate_in_message_handler [of "mounted sampleProps :: string state" sampleProps]
    by (simp add: handler_eval)
qed

subsection \<open>C8: the last answer delivered wins the cache\<close>

text \<open>
  Claim C8 says that of two answers for one compile key the cache ends holding the one
  delivered second, for any key. The player's cache is a plain object written by
  assignment, and assigning a string to \<^verbatim>\<open>__proto__\<close> stores nothing. In a workspace whose
  file is named \<^verbatim>\<open>__proto__\<close>, two edits post two requests under that name; after both
  answers the cache holds neither code: it has no own entry at all, reading the name gives
  the inherited object, and both runs receive the empty map.
\<close>

theorem proto_answers_never_cached:
  "map req_filename (posted (onCodeChange ''let a = 2'' (onCodeChange ''let a = 1''
       (mounted protoProps :: string state))))
     = [''__proto__'', ''__proto__'', ''__proto__'']
   \<and> playerCache (deliver (\<lambda>e. e) protoProps
        [codeMessage ''__proto__'' ''var a = 1;'', codeMessage ''__proto__'' ''var a = 2;'']
        (onCodeChange ''let a = 2'' (onCodeChange ''let a = 1'' (mounted protoProps))))
     = Map.empty
   \<and> getProperty (playerCache (deliver (\<lambda>e. e) protoProps
        [codeMessage ''__proto__'' ''var a = 1;'', codeMessage ''__proto__'' ''var a = 2;'']
        (onCodeChange ''let a = 2'' (onCodeChange ''let a = 1'' (mounted protoProps :: string state)))))
        ''__proto__''
     = Inherited
   \<and> runs (deliver (\<lambda>e. e) protoProps
        [codeMessage ''__proto__'' ''var a = 1;'', codeMessage ''__proto__'' ''var a = 2;'']
        (onCodeChange ''let a = 2'' (onCodeChange ''let a = 1'' (mounted protoProps))))
     = [(Map.empty, ''__proto__''), (Map.empty, ''__proto__'')]"
  by (simp add: handler_eval mounted_proto protoProps_fields onCodeChange_def postFile_def)

text \<open>
  For every other key the component does what the claim says. Two edits of the active file
  post two rounds of requests under the same names, and a request carries nothing but
  name, code and options. Of two successful answers \<open>m1\<close> and \<open>m2\<close> for one name that is a
  transpiler id or differs from \<^verbatim>\<open>__proto__\<close>, the one delivered second is what the cache
  holds for that name, in either order of delivery; and in any case both caches end as if
  the first answer had never arrived.
\<close>

lemma last_writer_wins:
  assumes "type m1 = ''code''" and "type m2 = ''code''" and "filename m1 = filename m2"
    and "isTranspilerId (filename m1) \<or> filename m1 \<noteq> ''__proto__''"
  shows "cached (deliver g p [m1, m2] (onCodeChange src2 (onCodeChange src1 s))) (filename m1)
           = Some (code m2)
       \<and> cached (deliver g p [m2, m1] (onCodeChange src2 (onCodeChange src1 s))) (filename m1)
           = Some (code m1)
       \<and> playerCache (deliver g p [m1, m2] t) = playerCache (deliver g p [m2] t)
       \<and> transpilerCache (deliver g p [m1, m2] t) = transpilerCache (deliver g p [m2] t)
       \<and> map req_filename (posted (onCodeChange src2 (onCodeChange src1 s)))
           = map req_filename (posted s)
             @ (if playerVisible s then [activeTab s] else [])
             @ (if transpilerVisible s then [getTranspilerId (activeTab s)] else [])
             @ (if playerVisible s then [activeTab s] else [])
             @ (if transpilerVisible s then [getTranspilerId (activeTab s)] else [])"
proof -
  have caches: "playerCache (deliver g p [m1, m2] t) = playerCache (deliver g p [m2] t)
      \<and> transpilerCache (deliver g p [m1, m2] t) = transpilerCache (deliver g p [m2] t)"
    using assms(1-3)
    by (cases "isTranspilerId (filename m2)")
       (simp_all add: message_preview message_player setProperty_def)
  have reqs: "map req_filename (posted (onCodeChange src2 (onCodeChange src1 s)))
           = map req_filename (posted s)
             @ (if playerVisible s then [activeTab s] else [])
             @ (if transpilerVisible s then [getTranspilerId (activeTab s)] else [])
             @ (if playerVisible s then [activeTab s] else [])
             @ (if transpilerVisible s then [getTranspilerId (activeTab s)] else [])"
    by (simp add: onCodeChange_def postFile_def Let_def)
  from assms caches reqs show ?thesis
    by (simp add: cached_message)
qed

lemma last_writer_wins_example:
  "cached (deliver (\<lambda>e. e) sampleProps
         [codeMessage ''a.js'' ''var a = 2;'', codeMessage ''a.js'' ''var a = 1;'']
         (onCodeChange ''let a = 2'' (onCodeChange ''let a = 1'' (mounted sampleProps)))) ''a.js''
       = Some ''var a = 1;''"
proof -
  have h1: "type (codeMessage ''a.js'' ''var a = 1;'') = ''code''"
    and h2: "type (codeMessage ''a.js'' ''var a = 2;'') = ''code''"
    and h3: "filename (codeMessage ''a.js'' ''var a = 1;'')
               = filename (codeMessage ''a.js'' ''var a = 2;'')"
    and h4: "isTranspilerId (filename (codeMessage ''a.js'' ''var a = 1;''))
               \<or> filename (codeMessage ''a.js'' ''var a = 1;'') \<noteq> ''__proto__''"
    by (simp_all add: codeMessage_def)
  show ?thesis
    using last_writer_wins [OF h1 h2 h3 h4, of "\<lambda>e. e" sampleProps
        "''let a = 2''" "''let a = 1''" "mounted sampleProps" "mounted sampleProps"]
    by (simp add: codeMessage_def del: deliver.simps)
qed

subsection \<open>C9: answers for names outside the file set\<close>

text \<open>
  Claim C9 says an answer whose name matches no declared file is dropped: no cache entry,
  no change of the error state, no run. The handler never looks the name up in
  \<^verbatim>\<open>props.files\<close>. Here \<^verbatim>\<open>a.js\<close> and \<^verbatim>\<open>b.js\<close> are transformed and a failure has set
  \<^verbatim>\<open>compilerError\<close>; a successful answer for \<^verbatim>\<open>ghost.js\<close> then clears the error, is
  filed in \<^verbatim>\<open>playerCache\<close> and requests a second run, whose map has the key \<^verbatim>\<open>ghost.js\<close>.
\<close>

theorem undeclared_response_not_dropped_counterexample:
  "''ghost.js'' \<notin> set (Object_keys (files sampleProps))
   \<and> compilerError (deliver (\<lambda>e. e) sampleProps
        [codeMessage ''a.js'' ''var a;'', codeMessage ''b.js'' ''var b;'',
         errorMessage ''a.js'' ''Unexpected token (1:4)''] (mounted sampleProps))
       = Some ''Unexpected token (1:4)''
   \<and> length (runs (deliver (\<lambda>e. e) sampleProps
        [codeMessage ''a.js'' ''var a;'', codeMessage ''b.js'' ''var b;'',
         errorMessage ''a.js'' ''Unexpected token (1:4)''] (mounted sampleProps))) = 1
   \<and> onBabelWorkerMessage (\<lambda>e. e) sampleProps (codeMessage ''ghost.js'' ''var g;'')
        (deliver (\<lambda>e. e) sampleProps
          [codeMessage ''a.js'' ''var a;'', codeMessage ''b.js'' ''var b;'',
           errorMessage ''a.js'' ''Unexpected token (1:4)''] (mounted sampleProps))
       = (mounted sampleProps)
           \<lparr>compilerError := None,
            playerCache := [''a.js'' \<mapsto> ''var a;'', ''b.js'' \<mapsto> ''var b;'', ''ghost.js'' \<mapsto> ''var g;''],
            runs := [([''a.js'' \<mapsto> ''var a;'', ''b.js'' \<mapsto> ''var b;''], ''a.js''),
                     ([''a.js'' \<mapsto> ''var a;'', ''b.js'' \<mapsto> ''var b;'', ''ghost.js'' \<mapsto> ''var g;''],
                      ''a.js'')]\<rparr>"
  by (simp add: handler_eval)

text \<open>
  Claim C9, amended. An answer whose name matches no declared file is handled like any
  other. A successful answer for the player, under a name other than \<^verbatim>\<open>__proto__\<close>, is
  filed in \<^verbatim>\<open>playerCache\<close> under that name, clears \<^verbatim>\<open>compilerError\<close> and calls
  \<^verbatim>\<open>runApplication\<close> exactly when the readiness test already held of the cache before the
  write; a successful answer for the transpiler view is filed in \<^verbatim>\<open>transpilerCache\<close> and
  clears \<^verbatim>\<open>compilerError\<close>; a failure sets \<^verbatim>\<open>compilerError\<close>; an answer of any other
  type changes nothing. With the player mounted the handler throws nothing.
\<close>

theorem undeclared_response_handled:
  assumes "realFilename (filename m) \<notin> set (Object_keys (files p))"
  shows "(type m = ''code'' \<and> \<not> isTranspilerId (filename m) \<and> filename m \<noteq> ''__proto__'' \<longrightarrow>
            onBabelWorkerMessage g p m s =
              (if allTransformed (files p) (playerCache s)
               then runApplication p
                      (s\<lparr>compilerError := None, showDetails := False,
                         playerCache := (playerCache s)(filename m \<mapsto> code m)\<rparr>)
               else s\<lparr>compilerError := None, showDetails := False,
                      playerCache := (playerCache s)(filename m \<mapsto> code m)\<rparr>))
       \<and> (type m = ''code'' \<and> isTranspilerId (filename m) \<longrightarrow>
            onBabelWorkerMessage g p m s =
              s\<lparr>compilerError := None, showDetails := False,
                transpilerCache := (transpilerCache s)(filename m \<mapsto> code m)\<rparr>)
       \<and> (type m = ''error'' \<longrightarrow>
            onBabelWorkerMessage g p m s = s\<lparr>compilerError := Some (g (error m))\<rparr>)
       \<and> (type m \<noteq> ''code'' \<and> type m \<noteq> ''error'' \<longrightarrow> onBabelWorkerMessage g p m s = s)
       \<and> (player s \<longrightarrow> uncaught (onBabelWorkerMessage g p m s) = uncaught s)"
proof -
  have exec: "onBabelWorkerMessage g p m s =
              (if allTransformed (files p) (playerCache s)
               then runApplication p
                      (s\<lparr>compilerError := None, showDetails := False,
                         playerCache := (playerCache s)(filename m \<mapsto> code m)\<rparr>)
               else s\<lparr>compilerError := None, showDetails := False,
                      playerCache := (playerCache s)(filename m \<mapsto> code m)\<rparr>)"
    if "type m = ''code''" and "\<not> isTranspilerId (filename m)" and "filename m \<noteq> ''__proto__''"
  proof -
    from assms that(2) have "filename m \<notin> set (Object_keys (files p))"
      by (simp add: realFilename_def)
    then have "allTransformed (files p) (setProperty (playerCache s) (filename m) (code m))
        = allTransformed (files p) (playerCache s)"
      by (rule allTransformed_undeclared)
    moreover from that(3) have
      "setProperty (playerCache s) (filename m) (code m) = (playerCache s)(filename m \<mapsto> code m)"
      by (rule setProperty_plain)
    ultimately show ?thesis
      using that(1,2) by (simp add: message_player runApplication_def)
  qed
  have quiet: "uncaught (onBabelWorkerMessage g p m s) = uncaught s" if "player s"
    using that
    by (cases m rule: message_cases)
       (simp_all add: message_preview message_player message_error message_other)
  from exec quiet show ?thesis
    by (simp add: message_preview message_error message_other)
qed

theorem undeclared_response_handled_witness:
  "realFilename (filename (codeMessage ''ghost.js'' ''var g;'')) \<notin> set (Object_keys (files sampleProps))
   \<and> type (codeMessage ''ghost.js'' ''var g;'') = ''code''
   \<and> \<not> isTranspilerId (filename (codeMessage ''ghost.js'' ''var g;''))
   \<and> filename (codeMessage ''ghost.js'' ''var g;'') \<noteq> ''__proto__''
   \<and> player (mounted sampleProps :: string state)
   \<and> onBabelWorkerMessage (\<lambda>e. e) sampleProps (codeMessage ''ghost.js'' ''var g;'')
        (mounted sampleProps)
       = (mounted sampleProps)\<lparr>playerCache := [''ghost.js'' \<mapsto> ''var g;'']\<rparr>
   \<and> realFilename (filename (codeMessage ''@babel-ghost.js'' ''var g;''))
        \<notin> set (Object_keys (files sampleProps))
   \<and> isTranspilerId (filename (codeMessage ''@babel-ghost.js'' ''var g;''))
   \<and> onBabelWorkerMessage (\<lambda>e. e) sampleProps (codeMessage ''@babel-ghost.js'' ''var g;'')
        (mounted sampleProps)
       = (mounted sampleProps)\<lparr>transpilerCache := [''@babel-ghost.js'' \<mapsto> ''var g;'']\<rparr>
   \<and> realFilename (filename (errorMessage ''ghost.js'' ''Unexpected token (1:4)''))
        \<notin> set (Object_keys (files sampleProps))
   \<and> onBabelWorkerMessage (\<lambda>e. e) sampleProps (errorMessage ''ghost.js'' ''Unexpected token (1:4)'')
        (mounted sampleProps)
       = (mounted sampleProps)\<lparr>compilerError := Some ''Unexpected token (1:4)''\<rparr>"
proof -
  have h1: "realFilename (filename (codeMessage ''ghost.js'' ''var g;''))
      \<notin> set (Object_keys (files sampleProps))"
    and h2: "realFilename (filename (codeMessage ''@babel-ghost.js'' ''var g;''))
      \<notin> set (Object_keys (files sampleProps))"
    and h3: "realFilename (filename (errorMessage ''ghost.js'' ''Unexpected token (1:4)''))
      \<notin> set (Object_keys (files sampleProps))"
    by (simp_all add: realFilename_def handler_eval)
  show ?thesis
    using h1 h2 h3
      undeclared_response_handled [OF h1, of "\<lambda>e. e" "mounted sampleProps :: string state"]
      undeclared_response_handled [OF h2, of "\<lambda>e. e" "mounted sampleProps :: string state"]
      undeclared_response_handled [OF h3, of "\<lambda>e. e" "mounted sampleProps :: string state"]
    by (simp add: handler_eval)
qed

subsection \<open>C10: empty output counts as not transformed\<close>

text \<open>
  Claim C10 says that after a successful answer with empty code no run is requested while
  any file's cached output is the empty string. The readiness test ranges over the
  declared files only. Here \<^verbatim>\<open>a.js\<close> and \<^verbatim>\<open>b.js\<close> are transformed; a successful answer
  for \<^verbatim>\<open>ghost.js\<close> with empty code is filed, and a run is requested with a map in which
  the output of \<^verbatim>\<open>ghost.js\<close> is the empty string.
\<close>

theorem empty_undeclared_output_runs_counterexample:
  "type (codeMessage ''ghost.js'' []) = ''code''
   \<and> \<not> isTranspilerId (filename (codeMessage ''ghost.js'' []))
   \<and> code (codeMessage ''ghost.js'' []) = []
   \<and> runs (deliver (\<lambda>e. e) sampleProps
        [codeMessage ''a.js'' ''var a;'', codeMessage ''b.js'' ''var b;''] (mounted sampleProps))
       = [([''a.js'' \<mapsto> ''var a;'', ''b.js'' \<mapsto> ''var b;''], ''a.js'')]
   \<and> runs (onBabelWorkerMessage (\<lambda>e. e) sampleProps (codeMessage ''ghost.js'' [])
        (deliver (\<lambda>e. e) sampleProps
          [codeMessage ''a.js'' ''var a;'', codeMessage ''b.js'' ''var b;''] (mounted sampleProps)))
       = [([''a.js'' \<mapsto> ''var a;'', ''b.js'' \<mapsto> ''var b;''], ''a.js''),
          ([''a.js'' \<mapsto> ''var a;'', ''b.js'' \<mapsto> ''var b;'', ''ghost.js'' \<mapsto> []], ''a.js'')]"
  by (simp add: handler_eval)

text \<open>
  Claim C10, amended. The readiness test reads the cached string of each declared file as
  a condition. When a successful answer for a declared file, under a name other than
  \<^verbatim>\<open>__proto__\<close>, carries the empty string, the entry exists afterwards and the test fails,
  so no run is requested and nothing is thrown; the same holds after any successful answer
  for the player while some declared file \<open>f\<close> has the empty string as its cached output.
  An answer for a name outside the declared set leaves the value of the test as it was,
  whatever its code.
\<close>

theorem empty_output_blocks_run:
  assumes "type m = ''code''" and "\<not> isTranspilerId (filename m)"
  shows "(code m = [] \<and> filename m \<in> set (Object_keys (files p))
            \<and> filename m \<noteq> ''__proto__'' \<longrightarrow>
            playerCache (onBabelWorkerMessage g p m s) (filename m) = Some []
          \<and> \<not> allTransformed (files p) (playerCache (onBabelWorkerMessage g p m s))
          \<and> runs (onBabelWorkerMessage g p m s) = runs s
          \<and> uncaught (onBabelWorkerMessage g p m s) = uncaught s)
       \<and> (f \<in> set (Object_keys (files p))
            \<and> playerCache (onBabelWorkerMessage g p m s) f = Some [] \<longrightarrow>
            \<not> allTransformed (files p) (playerCache (onBabelWorkerMessage g p m s))
          \<and> runs (onBabelWorkerMessage g p m s) = runs s
          \<and> uncaught (onBabelWorkerMessage g p m s) = uncaught s)
       \<and> (filename m \<notin> set (Object_keys (files p)) \<longrightarrow>
            allTransformed (files p) (playerCache (onBabelWorkerMessage g p m s))
              = allTransformed (files p) (playerCache s))"
proof -
  let ?c = "setProperty (playerCache s) (filename m) (code m)"
  have pc: "playerCache (onBabelWorkerMessage g p m s) = ?c"
    using assms by (rule playerCache_message)
  have blocked: "\<not> allTransformed (files p) ?c"
    if "k \<in> set (Object_keys (files p))" and "?c k = Some []" for k
  proof -
    from that(2) have "\<not> truthy (getProperty ?c k)"
      by (simp add: truthy_getProperty_own)
    with that(1) show ?thesis
      by (auto simp: allTransformed_truthy)
  qed
  have quiet: "runs (onBabelWorkerMessage g p m s) = runs s
      \<and> uncaught (onBabelWorkerMessage g p m s) = uncaught s"
    if "\<not> allTransformed (files p) ?c"
    using assms that by (simp add: message_player)
  have written: "?c (filename m) = Some []" if "code m = []" and "filename m \<noteq> ''__proto__''"
    using that by (simp add: setProperty_def)
  have undeclared: "allTransformed (files p) ?c = allTransformed (files p) (playerCache s)"
    if "filename m \<notin> set (Object_keys (files p))"
    using that by (rule allTransformed_undeclared)
  have first: "?c (filename m) = Some [] \<and> \<not> allTransformed (files p) ?c
      \<and> runs (onBabelWorkerMessage g p m s) = runs s
      \<and> uncaught (onBabelWorkerMessage g p m s) = uncaught s"
    if "code m = []" and "filename m \<in> set (Object_keys (files p))"
      and "filename m \<noteq> ''__proto__''"
  proof -
    from that(1,3) have w: "?c (filename m) = Some []" by (rule written)
    with that(2) have "\<not> allTransformed (files p) ?c" by (rule blocked)
    with w quiet show ?thesis by blast
  qed
  have second: "\<not> allTransformed (files p) ?c
      \<and> runs (onBabelWorkerMessage g p m s) = runs s
      \<and> uncaught (onBabelWorkerMessage g p m s) = uncaught s"
    if "f \<in> set (Object_keys (files p))" and "?c f = Some []"
  proof -
    from that have "\<not> allTransformed (files p) ?c" by (rule blocked)
    with quiet show ?thesis by blast
  qed
  from first second undeclared show ?thesis
    unfolding pc by blast
qed

theorem empty_output_blocks_run_witness:
  "type (codeMessage ''b.js'' []) = ''code'' \<and> \<not> isTranspilerId (filename (codeMessage ''b.js'' []))
   \<and> code (codeMessage ''b.js'' []) = [] \<and> ''b.js'' \<in> set (Object_keys (files sampleProps))
   \<and> filename (codeMessage ''b.js'' []) \<noteq> ''__proto__''
   \<and> playerCache (onBabelWorkerMessage (\<lambda>e. e) sampleProps (codeMessage ''b.js'' [])
        (onBabelWorkerMessage (\<lambda>e. e) sampleProps (codeMessage ''a.js'' ''var a;'')
          (mounted sampleProps))) = [''a.js'' \<mapsto> ''var a;'', ''b.js'' \<mapsto> []]
   \<and> runs (onBabelWorkerMessage (\<lambda>e. e) sampleProps (codeMessage ''b.js'' [])
        (onBabelWorkerMessage (\<lambda>e. e) sampleProps (codeMessage ''a.js'' ''var a;'')
          (mounted sampleProps))) = []
   \<and> ''ghost.js'' \<notin> set (Object_keys (files sampleProps))
   \<and> allTransformed (files sampleProps)
        (playerCache (onBabelWorkerMessage (\<lambda>e. e) sampleProps (codeMessage ''ghost.js'' [])
          (mounted sampleProps :: string state)))
       = allTransformed (files sampleProps) (playerCache (mounted sampleProps :: string state))"
proof -
  have h1: "type (codeMessage ''b.js'' []) = ''code''"
    and h2: "\<not> isTranspilerId (filename (codeMessage ''b.js'' []))"
    and h3: "code (codeMessage ''b.js'' []) = []"
    and h4: "''b.js'' \<in> set (Object_keys (files sampleProps))"
    and h5: "filename (codeMessage ''b.js'' []) \<noteq> ''__proto__''"
    and g1: "type (codeMessage ''ghost.js'' []) = ''code''"
    and g2: "\<not> isTranspilerId (filename (codeMessage ''ghost.js'' []))"
    and g3: "filename (codeMessage ''ghost.js'' []) \<notin> set (Object_keys (files sampleProps))"
    by (simp_all add: codeMessage_def isTranspilerId_prefix transpilerPrefix_def
        Object_keys_def sampleProps_fields)
  show ?thesis
    using h1 h2 h3 h4 h5 g3
      empty_output_blocks_run [OF h1 h2, of sampleProps "\<lambda>e. e"
        "onBabelWorkerMessage (\<lambda>e. e) sampleProps (codeMessage ''a.js'' ''var a;'')
          (mounted sampleProps)" "''b.js''"]
      empty_output_blocks_run [OF g1 g2, of sampleProps "\<lambda>e. e"
        "mounted sampleProps :: string state"]
    by (simp add: handler_eval)
qed

end
